theory Spec2Isabelle
  imports Main
begin

section \<open>Values exchanged with the caller and with the vendor\<close>

text \<open>
  The hook \<open>useGoogleAuth\<close> of \<open>src/index.ts\<close> talks to three parties: the caller
  (through the properties it receives and the callbacks it invokes), the browser document
  (one script element) and the vendor library \<open>window.gapi\<close>. The vendor is opaque: its
  objects are modelled as records holding what each method answers, and everything the
  hook does to the outside world is written to a list of effects, in program order.
\<close>

text \<open>An error value: the vendor's own (opaque, a string here) or a JavaScript TypeError.\<close>

datatype error = TypeError | Vendor string

text \<open>A function reference supplied by the caller.\<close>

datatype fn = Fn string

datatype ux_mode = Popup | Redirect

datatype prompt_mode = Consent | Select_account | No_prompt

datatype access = Offline

text \<open>How a vendor promise settles.\<close>

datatype 'a settled = Resolved 'a | Rejected error | Pending

text \<open>
  The interface \<open>GoogleLoginProps\<close> (lines 307-348): every property but \<open>clientId\<close> is
  optional; an omitted property is \<open>None\<close> (JavaScript's \<open>undefined\<close>).
\<close>

record GoogleLoginProps =
  prop_clientId :: string
  prop_cookiePolicy :: "string option"
  prop_fetchBasicProfile :: "bool option"
  prop_hostedDomains :: "string option"
  prop_onLoadFailure :: "fn option"
  prop_onLoginChange :: "fn option"
  prop_onLoginFailure :: "fn option"
  prop_onLoginSuccess :: "fn option"
  prop_onLogoutFailure :: "fn option"
  prop_onLogoutSuccess :: "fn option"
  prop_prompt :: "prompt_mode option"
  prop_redirectUri :: "string option"
  prop_scope :: "string list option"
  prop_src :: "string option"
  prop_stayLoggedIn :: "bool option"
  prop_uxMode :: "ux_mode option"

text \<open>
  The parameter bindings of the hook after destructuring (lines 12-29): the local
  variables every closure of the hook reads.
\<close>

record bindings =
  clientId :: string
  cookiePolicy :: string
  hostedDomains :: "string option"
  fetchBasicProfile :: "bool option"
  onLoginChange :: "fn option"
  onLoginFailure :: "fn option"
  onLoadFailure :: "fn option"
  onLoginSuccess :: "fn option"
  onLogoutFailure :: "fn option"
  onLogoutSuccess :: "fn option"
  prompt :: prompt_mode
  redirectUri :: "string option"
  scope :: "string list"
  src :: string
  stayLoggedIn :: bool
  uxMode :: ux_mode

text \<open>A destructuring default applies exactly when the property is \<open>undefined\<close>.\<close>

definition or_default :: "'a option \<Rightarrow> 'a \<Rightarrow> 'a" where
  "or_default v d = (case v of None \<Rightarrow> d | Some x \<Rightarrow> x)"

definition destructure :: "GoogleLoginProps \<Rightarrow> bindings" where
  "destructure props =
     \<lparr> clientId = prop_clientId props,
       cookiePolicy = or_default (prop_cookiePolicy props) ''single_host_origin'',
       hostedDomains = prop_hostedDomains props,
       fetchBasicProfile = prop_fetchBasicProfile props,
       onLoginChange = prop_onLoginChange props,
       onLoginFailure = prop_onLoginFailure props,
       onLoadFailure = prop_onLoadFailure props,
       onLoginSuccess = prop_onLoginSuccess props,
       onLogoutFailure = prop_onLogoutFailure props,
       onLogoutSuccess = prop_onLogoutSuccess props,
       prompt = or_default (prop_prompt props) Select_account,
       redirectUri = prop_redirectUri props,
       scope = or_default (prop_scope props) [''profile''],
       src = or_default (prop_src props) ''https://apis.google.com/js/platform.js'',
       stayLoggedIn = or_default (prop_stayLoggedIn props) False,
       uxMode = or_default (prop_uxMode props) Popup \<rparr>"

text \<open>A caller that passes \<open>clientId\<close> and nothing else.\<close>

definition only_clientId :: "string \<Rightarrow> GoogleLoginProps" where
  "only_clientId cid =
     \<lparr> prop_clientId = cid, prop_cookiePolicy = None, prop_fetchBasicProfile = None,
       prop_hostedDomains = None, prop_onLoadFailure = None, prop_onLoginChange = None,
       prop_onLoginFailure = None, prop_onLoginSuccess = None, prop_onLogoutFailure = None,
       prop_onLogoutSuccess = None, prop_prompt = None, prop_redirectUri = None,
       prop_scope = None, prop_src = None, prop_stayLoggedIn = None, prop_uxMode = None \<rparr>"

text \<open>\<open>Array.prototype.join\<close> on an array of strings.\<close>

fun join :: "string \<Rightarrow> string list \<Rightarrow> string" where
  "join sep [] = []"
| "join sep [x] = x"
| "join sep (x # y # ys) = x @ sep @ join sep (y # ys)"

text \<open>The interfaces \<open>GoogleClientConfig\<close> (lines 249-282) and \<open>GoogleSignInOptions\<close>
  (lines 284-302), with the values the hook stores in them.\<close>

record GoogleClientConfig =
  cfg_access_type :: "access option"
  cfg_client_id :: string
  cfg_cookie_policy :: string
  cfg_fetch_basic_profile :: "bool option"
  cfg_hosted_domains :: "string option"
  cfg_redirect_uri :: "string option"
  cfg_scope :: string
  cfg_ux_mode :: ux_mode

record GoogleSignInOptions =
  opt_prompt :: prompt_mode
  opt_redirect_uri :: "string option"
  opt_scope :: string
  opt_ux_mode :: ux_mode

text \<open>
  The vendor's objects, as far as the hook reads them. The hook types all of them
  \<open>any\<close> and checks none: a user's \<open>getBasicProfile()\<close> and \<open>getAuthResponse()\<close>
  may answer \<open>undefined\<close> (\<open>None\<close>), and a value handed to the hook as a response
  need not be a user at all.
\<close>

record auth_response =
  access_token :: string
  id_token :: string
  expires_at :: int

record basic_profile =
  getId :: string
  getImageUrl :: string
  getEmail :: string
  getName :: string
  getGivenName :: string
  getFamilyName :: string

record google_user =
  getBasicProfile :: "basic_profile option"
  getAuthResponse :: "auth_response option"

text \<open>
  A value a vendor promise resolves with and the hook passes to \<open>handleLoginSuccess\<close>:
  a user object, or a bare auth response, which has the token fields and neither
  \<open>getBasicProfile\<close> nor \<open>getAuthResponse\<close>.
\<close>

datatype response = Google_user google_user | Auth_only auth_response

text \<open>
  The vendor's \<open>GoogleAuth\<close> object: what \<open>isSignedIn.get()\<close> and
  \<open>currentUser.get()\<close> answer and how the promises of \<open>then\<close>, \<open>signIn\<close>,
  \<open>signOut\<close> and \<open>currentUser.get().reloadAuthResponse()\<close> settle.
\<close>

record google_auth =
  ready :: "unit settled"
  isSignedIn_get :: bool
  currentUser_get :: google_user
  signIn_settles :: "response settled"
  signOut_settles :: "unit settled"
  reload_settles :: "response settled"

text \<open>What the hook hands to \<open>onLoginSuccess\<close> (lines 200-212).\<close>

record profile_object =
  googleId :: string
  imageUrl :: string
  email :: string
  name :: string
  givenName :: string
  familyName :: string

record success_object =
  accessToken :: string
  profile :: profile_object
  tokenId :: string
  tokenObject :: auth_response

datatype arg = No_arg | Error_arg error | Bool_arg bool | Success_arg success_object

text \<open>
  The effects of the hook: the two state setters, the vendor calls and the calls of the
  caller's functions.
\<close>

datatype effect =
    SetGapiLoaded bool
  | SetAuthLoaded bool
  | Gapi_load string
  | Auth2_init GoogleClientConfig
  | IsSignedIn_listen fn
  | Auth_signIn GoogleSignInOptions
  | Auth_signOut
  | Auth_disconnect
  | Auth_reload
  | Console_error error
  | Call fn arg

text \<open>
  What running a piece of the hook gives: the effects in order, and the exception that
  escaped it, if one did (a throw in the call itself or in a promise continuation it
  registered, or a rejection nobody handles).
\<close>

type_synonym run = "effect list \<times> error option"

definition done_with :: "effect list \<Rightarrow> run" where
  "done_with effs = (effs, None)"

text \<open>Sequencing two statements: the second runs only when the first did not throw.\<close>

definition seq :: "run \<Rightarrow> run \<Rightarrow> run" where
  "seq r1 r2 = (case snd r1 of
      Some e \<Rightarrow> r1
    | None \<Rightarrow> (fst r1 @ fst r2, snd r2))"

text \<open>\<open>.catch((error) => console.error(error))\<close> at line 113.\<close>

definition catch_console :: "run \<Rightarrow> run" where
  "catch_console r = (case snd r of
      None \<Rightarrow> r
    | Some e \<Rightarrow> (fst r @ [Console_error e], None))"

text \<open>
  Calling an optional callback without a guard, as lines 139 and 189 do: calling
  \<open>undefined\<close> throws a TypeError.
\<close>

definition call_unguarded :: "fn option \<Rightarrow> arg \<Rightarrow> run" where
  "call_unguarded f a = (case f of
      None \<Rightarrow> ([], Some TypeError)
    | Some g \<Rightarrow> ([Call g a], None))"

text \<open>
  The methods of the vendor's \<open>isSignedIn\<close> object, from the vendor's reference (the
  source cites it at line 305): \<open>get()\<close> and \<open>listen(listener)\<close>. Invoking any other
  property of the object is calling \<open>undefined\<close>.
\<close>

definition isSignedIn_methods :: "string list" where
  "isSignedIn_methods = [''get'', ''listen'']"

definition isSignedIn_invoke :: "string \<Rightarrow> fn \<Rightarrow> run" where
  "isSignedIn_invoke m f =
     (if m \<notin> set isSignedIn_methods then ([], Some TypeError)
      else if m = ''listen'' then ([IsSignedIn_listen f], None)
      else ([], None))"

section \<open>The closures of the hook\<close>

text \<open>
  Lines 195-214. Lines 196-197 call \<open>getBasicProfile\<close> and \<open>getAuthResponse\<close> on the
  response before anything else: on a value without these methods the call throws a
  TypeError. Inside the guard on \<open>onLoginSuccess\<close> the object literal reads
  \<open>authResponse.access_token\<close> and then calls \<open>basicProfile.getId()\<close>: either throws a
  TypeError when the value is \<open>undefined\<close>, before \<open>onLoginSuccess\<close> is called.
\<close>

definition handleLoginSuccess :: "bindings \<Rightarrow> response \<Rightarrow> run" where
  "handleLoginSuccess b response =
     (case response of
        Auth_only bare \<Rightarrow> ([], Some TypeError)
      | Google_user user \<Rightarrow>
          (let basicProfile = getBasicProfile user;
               authResponse = getAuthResponse user
           in case onLoginSuccess b of
                None \<Rightarrow> ([], None)
              | Some f \<Rightarrow>
                  (case authResponse of
                     None \<Rightarrow> ([], Some TypeError)
                   | Some ar \<Rightarrow>
                       (case basicProfile of
                          None \<Rightarrow> ([], Some TypeError)
                        | Some bp \<Rightarrow>
                            ([Call f (Success_arg
                               \<lparr> accessToken = access_token ar,
                                 profile =
                                   \<lparr> googleId = getId bp,
                                     imageUrl = getImageUrl bp,
                                     email = getEmail bp,
                                     name = getName bp,
                                     givenName = getGivenName bp,
                                     familyName = getFamilyName bp \<rparr>,
                                 tokenId = id_token ar,
                                 tokenObject = ar \<rparr>)], None)))))"

text \<open>Lines 216-220.\<close>

definition handleLoginFailure :: "bindings \<Rightarrow> error \<Rightarrow> effect list" where
  "handleLoginFailure b response =
     (case onLoginFailure b of None \<Rightarrow> [] | Some f \<Rightarrow> [Call f (Error_arg response)])"

text \<open>Lines 63-75: the configuration built by the second effect.\<close>

definition clientConfig :: "bindings \<Rightarrow> GoogleClientConfig" where
  "clientConfig b =
     (let cfg =
        \<lparr> cfg_access_type = None,
          cfg_client_id = clientId b,
          cfg_cookie_policy = cookiePolicy b,
          cfg_fetch_basic_profile = fetchBasicProfile b,
          cfg_hosted_domains = hostedDomains b,
          cfg_redirect_uri = (if uxMode b = Redirect then redirectUri b else Some ''''),
          cfg_scope = join '' '' (scope b),
          cfg_ux_mode = uxMode b \<rparr>
      in if stayLoggedIn b then cfg\<lparr>cfg_access_type := Some Offline\<rparr> else cfg)"

text \<open>Lines 89-103: \<open>gapi.auth2.init\<close> resolved with the auth client.\<close>

definition init_fulfilled :: "bindings \<Rightarrow> google_auth \<Rightarrow> run" where
  "init_fulfilled b response =
     (let loggedIn = isSignedIn_get response
      in seq (case onLoginChange b of
                None \<Rightarrow> done_with []
              | Some f \<Rightarrow> isSignedIn_invoke ''listen'' f)
             (if loggedIn
              then handleLoginSuccess b (Google_user (currentUser_get response))
              else done_with []))"

text \<open>Lines 105-111: \<open>gapi.auth2.init\<close> rejected.\<close>

definition init_rejected :: "bindings \<Rightarrow> error \<Rightarrow> run" where
  "init_rejected b err =
     done_with (Console_error err #
       (case onLoadFailure b of None \<Rightarrow> [] | Some f \<Rightarrow> [Call f (Error_arg err)]))"

text \<open>Lines 119-129: an auth client existed already and is ready.\<close>

definition existing_fulfilled :: "bindings \<Rightarrow> google_auth \<Rightarrow> run" where
  "existing_fulfilled b googleAuth =
     seq (if stayLoggedIn b
          then handleLoginSuccess b (Google_user (currentUser_get googleAuth))
          else done_with [])
         (case onLoginChange b of
            None \<Rightarrow> done_with []
          | Some f \<Rightarrow> isSignedIn_invoke ''listener'' f)"

text \<open>Lines 130-134: an auth client existed already and its readiness failed.\<close>

definition existing_rejected :: "bindings \<Rightarrow> error \<Rightarrow> run" where
  "existing_rejected b err = done_with (Console_error err # handleLoginFailure b err)"

text \<open>
  Lines 78-137: the success callback of \<open>gapi.load('auth2', ...)\<close>. Its arguments are
  what \<open>gapi.auth2.getAuthInstance()\<close> answers and how the promise of
  \<open>gapi.auth2.init\<close> settles (read only when there is no instance).
\<close>

definition auth2_callback :: "bindings \<Rightarrow> google_auth option \<Rightarrow> google_auth settled \<Rightarrow> run" where
  "auth2_callback b googleAuth init_settles =
     seq (done_with [SetAuthLoaded True])
       (case googleAuth of
          None \<Rightarrow>
            seq (done_with [Auth2_init (clientConfig b)])
              (catch_console
                (case init_settles of
                   Resolved response \<Rightarrow> init_fulfilled b response
                 | Rejected err \<Rightarrow> init_rejected b err
                 | Pending \<Rightarrow> done_with []))
        | Some ga \<Rightarrow>
            (case ready ga of
               Resolved u \<Rightarrow> existing_fulfilled b ga
             | Rejected err \<Rightarrow> existing_rejected b err
             | Pending \<Rightarrow> done_with []))"

text \<open>Lines 138-140: the error callback of \<open>gapi.load\<close>.\<close>

definition auth2_error :: "bindings \<Rightarrow> error \<Rightarrow> run" where
  "auth2_error b err = call_unguarded (onLoadFailure b) (Error_arg err)"

text \<open>Lines 61-143: the body of the second effect, for the rendered value of
  \<open>gapiLoaded\<close>.\<close>

definition init_effect :: "bindings \<Rightarrow> bool \<Rightarrow> effect list" where
  "init_effect b gapi_loaded = (if gapi_loaded then [Gapi_load ''auth2''] else [])"

text \<open>Lines 154-159.\<close>

definition signInOptions :: "bindings \<Rightarrow> GoogleSignInOptions" where
  "signInOptions b =
     \<lparr> opt_prompt = prompt b,
       opt_redirect_uri = redirectUri b,
       opt_scope = join '' '' (scope b),
       opt_ux_mode = uxMode b \<rparr>"

text \<open>
  Lines 149-170. The arguments after the bindings are the rendered value of
  \<open>authLoaded\<close> and what \<open>gapi.auth2.getAuthInstance()\<close> answers.
\<close>

definition signIn :: "bindings \<Rightarrow> bool \<Rightarrow> google_auth option \<Rightarrow> run" where
  "signIn b auth_loaded googleAuth =
     (if auth_loaded then
        (case googleAuth of
           None \<Rightarrow> done_with []
         | Some ga \<Rightarrow>
             seq (done_with [Auth_signIn (signInOptions b)])
               (case signIn_settles ga of
                  Resolved response \<Rightarrow> handleLoginSuccess b response
                | Rejected err \<Rightarrow> done_with (handleLoginFailure b err)
                | Pending \<Rightarrow> done_with []))
      else done_with [])"

text \<open>
  Lines 172-193. The promise of the vendor's \<open>signOut\<close> gets a fulfilment handler
  only, so its rejection is handled by nobody.
\<close>

definition signOut :: "bindings \<Rightarrow> bool \<Rightarrow> google_auth option \<Rightarrow> run" where
  "signOut b auth_loaded googleAuth =
     (if auth_loaded then
        (case googleAuth of
           None \<Rightarrow> done_with []
         | Some ga \<Rightarrow>
             (case ready ga of
                Resolved u \<Rightarrow>
                  seq (done_with [Auth_signOut])
                    (case signOut_settles ga of
                       Resolved v \<Rightarrow>
                         done_with (Auth_disconnect #
                           (case onLogoutSuccess b of None \<Rightarrow> [] | Some f \<Rightarrow> [Call f No_arg]))
                     | Rejected err \<Rightarrow> ([], Some err)
                     | Pending \<Rightarrow> done_with [])
              | Rejected err \<Rightarrow> call_unguarded (onLogoutFailure b) (Error_arg err)
              | Pending \<Rightarrow> done_with []))
      else done_with [])"

text \<open>
  Lines 222-237: the body of the third effect, for the rendered value of \<open>authLoaded\<close>
  and what \<open>gapi.auth2.getAuthInstance()\<close> answers.
\<close>

definition reload_effect :: "bindings \<Rightarrow> bool \<Rightarrow> google_auth option \<Rightarrow> run" where
  "reload_effect b auth_loaded googleAuth =
     (if auth_loaded \<and> stayLoggedIn b then
        (case googleAuth of
           None \<Rightarrow> done_with []
         | Some ga \<Rightarrow>
             if isSignedIn_get ga then
               seq (done_with [Auth_reload])
                 (case reload_settles ga of
                    Resolved response \<Rightarrow> handleLoginSuccess b response
                  | Rejected err \<Rightarrow> done_with (handleLoginFailure b err)
                  | Pending \<Rightarrow> done_with [])
             else done_with [])
      else done_with [])"

text \<open>
  Lines 239-242: the object the hook returns, as its fields in order. Each field is a
  closure over the bindings and the rendered \<open>authLoaded\<close>; the argument left is what
  \<open>gapi.auth2.getAuthInstance()\<close> answers when the closure is called.
\<close>

record hook_state =
  gapiLoaded :: bool
  authLoaded :: bool

definition useGoogleAuth ::
  "GoogleLoginProps \<Rightarrow> hook_state \<Rightarrow> (string \<times> (google_auth option \<Rightarrow> run)) list" where
  "useGoogleAuth props st =
     (let b = destructure props
      in [(''signIn'', signIn b (authLoaded st)), (''signOut'', signOut b (authLoaded st))])"

section \<open>The document and the first effect\<close>

text \<open>
  An element of the document: tag, id, the attributes the hook sets, and its listeners.
  A \<open>load\<close> listener of the hook is the closure \<open>() => setGapiLoaded(true)\<close> of one
  component, kept as that component's number; an \<open>error\<close> listener is a caller's function.
\<close>

record element =
  el_tag :: string
  el_id :: string
  el_src :: string
  el_async :: bool
  el_load :: "nat list"
  el_error :: "fn list"

record document =
  doc_head :: "element list"
  doc_body :: "element list"

definition getElementById :: "document \<Rightarrow> string \<Rightarrow> element option" where
  "getElementById d i = find (\<lambda>e. el_id e = i) (doc_head d @ doc_body d)"

text \<open>Lines 39-46: the script element component \<open>c\<close> creates. \<open>addEventListener\<close> with
  an \<open>undefined\<close> listener adds nothing.\<close>

definition script_element :: "nat \<Rightarrow> bindings \<Rightarrow> element" where
  "script_element c b =
     \<lparr> el_tag = ''script'', el_id = ''google-script'', el_src = src b, el_async = True,
       el_load = [c],
       el_error = (case onLoadFailure b of None \<Rightarrow> [] | Some f \<Rightarrow> [f]) \<rparr>"

text \<open>Lines 37-55: the body of the first effect, run by component \<open>c\<close>.\<close>

definition mount_effect :: "nat \<Rightarrow> bindings \<Rightarrow> document \<Rightarrow> document" where
  "mount_effect c b d =
     (if getElementById d ''google-script'' = None
      then d\<lparr>doc_head := doc_head d @ [script_element c b]\<rparr>
      else d)"

text \<open>Any number of runs of the first effect, by any components, one after the other.\<close>

fun mounts :: "(nat \<times> bindings) list \<Rightarrow> document \<Rightarrow> document" where
  "mounts [] d = d"
| "mounts ((c, b) # ms) d = mounts ms (mount_effect c b d)"

text \<open>The \<open>google-script\<close> elements of a list of elements.\<close>

definition google_scripts :: "element list \<Rightarrow> element list" where
  "google_scripts es = filter (\<lambda>e. el_id e = ''google-script'') es"

section \<open>The components of a page, step by step\<close>

text \<open>
  A page holds the document, the state of every component that uses the hook (both flags
  start \<open>false\<close>, line 31-32), the callbacks registered with \<open>gapi.load\<close> that have
  not run yet (each a closure of a component over its bindings), and the effects so far.
\<close>

record page =
  page_document :: document
  page_hooks :: "nat \<Rightarrow> hook_state"
  page_auth2 :: "(nat \<times> bindings) list"
  page_log :: "effect list"

definition initial_page :: "document \<Rightarrow> page" where
  "initial_page d =
     \<lparr> page_document = d,
       page_hooks = (\<lambda>c. \<lparr> gapiLoaded = False, authLoaded = False \<rparr>),
       page_auth2 = [],
       page_log = [] \<rparr>"

text \<open>A state setter changes its flag; no other effect touches the state of the hook.\<close>

fun set_state :: "effect \<Rightarrow> hook_state \<Rightarrow> hook_state" where
  "set_state (SetGapiLoaded v) st = st\<lparr>gapiLoaded := v\<rparr>"
| "set_state (SetAuthLoaded v) st = st\<lparr>authLoaded := v\<rparr>"
| "set_state other st = st"

definition commit :: "nat \<Rightarrow> effect list \<Rightarrow> (nat \<Rightarrow> hook_state) \<Rightarrow> (nat \<Rightarrow> hook_state)" where
  "commit c effs hooks = hooks(c := fold set_state effs (hooks c))"

text \<open>Line 45: the \<open>load\<close> listener.\<close>

definition load_listener :: "effect list" where
  "load_listener = [SetGapiLoaded True]"

text \<open>
  What can happen on the page: the three effects of a component, the \<open>load\<close> and
  \<open>error\<close> events of the script element, the two callbacks of \<open>gapi.load\<close>, and calls
  of the returned functions. An event may come at any moment and any number of times, which
  covers every order in which the browser, the vendor and the rendering framework can
  produce them. Those that run code of the hook carry the properties of the render whose
  closure runs and what the vendor answers at that moment. Unmounting (the cleanup of the
  first effect) is not part of the page's events.
\<close>

datatype event =
    Mount nat GoogleLoginProps
  | Load_fires
  | Error_fires error
  | Init_effect nat GoogleLoginProps
  | Auth2_loaded nat "google_auth option" "google_auth settled"
  | Auth2_failed nat error
  | Reload_effect nat GoogleLoginProps "google_auth option"
  | Sign_in nat GoogleLoginProps "google_auth option"
  | Sign_out nat GoogleLoginProps "google_auth option"

fun step :: "event \<Rightarrow> page \<Rightarrow> page" where
  "step (Mount c props) s =
     s\<lparr>page_document := mount_effect c (destructure props) (page_document s)\<rparr>"
| "step Load_fires s =
     (case getElementById (page_document s) ''google-script'' of
        None \<Rightarrow> s
      | Some el \<Rightarrow>
          s\<lparr>page_hooks := fold (\<lambda>c. commit c load_listener) (el_load el) (page_hooks s),
            page_log := page_log s @ concat (map (\<lambda>c. load_listener) (el_load el))\<rparr>)"
| "step (Error_fires err) s =
     (case getElementById (page_document s) ''google-script'' of
        None \<Rightarrow> s
      | Some el \<Rightarrow>
          s\<lparr>page_log := page_log s @ map (\<lambda>f. Call f (Error_arg err)) (el_error el)\<rparr>)"
| "step (Init_effect c props) s =
     (let b = destructure props;
          effs = init_effect b (gapiLoaded (page_hooks s c))
      in s\<lparr>page_auth2 :=
              (if Gapi_load ''auth2'' \<in> set effs then page_auth2 s @ [(c, b)] else page_auth2 s),
            page_log := page_log s @ effs\<rparr>)"
| "step (Auth2_loaded c googleAuth init_settles) s =
     (case map_of (page_auth2 s) c of
        None \<Rightarrow> s
      | Some b \<Rightarrow>
          (let effs = fst (auth2_callback b googleAuth init_settles)
           in s\<lparr>page_hooks := commit c effs (page_hooks s),
                 page_auth2 := remove1 (c, b) (page_auth2 s),
                 page_log := page_log s @ effs\<rparr>))"
| "step (Auth2_failed c err) s =
     (case map_of (page_auth2 s) c of
        None \<Rightarrow> s
      | Some b \<Rightarrow>
          (let effs = fst (auth2_error b err)
           in s\<lparr>page_hooks := commit c effs (page_hooks s),
                 page_auth2 := remove1 (c, b) (page_auth2 s),
                 page_log := page_log s @ effs\<rparr>))"
| "step (Reload_effect c props googleAuth) s =
     (let effs = fst (reload_effect (destructure props) (authLoaded (page_hooks s c)) googleAuth)
      in s\<lparr>page_hooks := commit c effs (page_hooks s), page_log := page_log s @ effs\<rparr>)"
| "step (Sign_in c props googleAuth) s =
     (let effs = fst (signIn (destructure props) (authLoaded (page_hooks s c)) googleAuth)
      in s\<lparr>page_hooks := commit c effs (page_hooks s), page_log := page_log s @ effs\<rparr>)"
| "step (Sign_out c props googleAuth) s =
     (let effs = fst (signOut (destructure props) (authLoaded (page_hooks s c)) googleAuth)
      in s\<lparr>page_hooks := commit c effs (page_hooks s), page_log := page_log s @ effs\<rparr>)"

definition run_events :: "event list \<Rightarrow> page \<Rightarrow> page" where
  "run_events evs s = fold step evs s"

text \<open>The components with a callback of \<open>gapi.load\<close> registered and not yet run.\<close>

definition auth2_registered :: "page \<Rightarrow> nat set" where
  "auth2_registered s = fst ` set (page_auth2 s)"

text \<open>
  A change of the signed-in state: the vendor calls every listener registered through
  \<open>isSignedIn.listen\<close>, in order, with the new value.
\<close>

definition listeners :: "effect list \<Rightarrow> fn list" where
  "listeners effs = concat (map (\<lambda>e. case e of IsSignedIn_listen f \<Rightarrow> [f] | _ \<Rightarrow> []) effs)"

definition session_change :: "effect list \<Rightarrow> bool \<Rightarrow> effect list" where
  "session_change effs v = map (\<lambda>f. Call f (Bool_arg v)) (listeners effs)"

text \<open>The calls of caller functions among some effects, and the vendor operations of
  signing in and out.\<close>

fun is_call :: "effect \<Rightarrow> bool" where
  "is_call (Call f a) = True"
| "is_call other = False"

fun is_success_call :: "effect \<Rightarrow> bool" where
  "is_success_call (Call f (Success_arg obj)) = True"
| "is_success_call other = False"

fun is_failure_call :: "effect \<Rightarrow> bool" where
  "is_failure_call (Call f (Error_arg err)) = True"
| "is_failure_call other = False"

fun is_sign_operation :: "effect \<Rightarrow> bool" where
  "is_sign_operation (Auth_signIn opts) = True"
| "is_sign_operation Auth_signOut = True"
| "is_sign_operation Auth_disconnect = True"
| "is_sign_operation other = False"

fun is_setter :: "effect \<Rightarrow> bool" where
  "is_setter (SetGapiLoaded v) = True"
| "is_setter (SetAuthLoaded v) = True"
| "is_setter other = False"

section \<open>Sample values\<close>

text \<open>A signed-in user, a ready auth client, a caller with callbacks, an empty document.\<close>

definition sample_user :: google_user where
  "sample_user =
     \<lparr> getBasicProfile = Some
         \<lparr> getId = ''1001'', getImageUrl = ''https://img.example/ada.png'',
           getEmail = ''ada@example.com'', getName = ''Ada Byron'',
           getGivenName = ''Ada'', getFamilyName = ''Byron'' \<rparr>,
       getAuthResponse = Some
         \<lparr> access_token = ''ya29.a0'', id_token = ''eyJ.b.c'', expires_at = 3600 \<rparr> \<rparr>"

definition sample_auth :: google_auth where
  "sample_auth =
     \<lparr> ready = Resolved (), isSignedIn_get = True, currentUser_get = sample_user,
       signIn_settles = Resolved (Google_user sample_user), signOut_settles = Resolved (),
       reload_settles = Pending \<rparr>"

definition sample_props :: GoogleLoginProps where
  "sample_props =
     (only_clientId ''my-client-id'')
       \<lparr> prop_onLoginChange := Some (Fn ''onChange''),
         prop_onLoginFailure := Some (Fn ''onFailure''),
         prop_onLoginSuccess := Some (Fn ''onSuccess''),
         prop_onLogoutFailure := Some (Fn ''onLogoutFailure''),
         prop_onLogoutSuccess := Some (Fn ''onLogoutSuccess''),
         prop_redirectUri := Some ''https://app.example/cb'',
         prop_scope := Some [''profile'', ''email''] \<rparr>"

definition empty_document :: document where
  "empty_document = \<lparr> doc_head = [], doc_body = [] \<rparr>"

section \<open>Facts about the closures and the page\<close>

lemma destructure_fields:
  "cookiePolicy (destructure props) = or_default (prop_cookiePolicy props) ''single_host_origin''"
  "prompt (destructure props) = or_default (prop_prompt props) Select_account"
  "scope (destructure props) = or_default (prop_scope props) [''profile'']"
  "src (destructure props) = or_default (prop_src props) ''https://apis.google.com/js/platform.js''"
  "stayLoggedIn (destructure props) = or_default (prop_stayLoggedIn props) False"
  "uxMode (destructure props) = or_default (prop_uxMode props) Popup"
  "clientId (destructure props) = prop_clientId props"
  "hostedDomains (destructure props) = prop_hostedDomains props"
  "fetchBasicProfile (destructure props) = prop_fetchBasicProfile props"
  "redirectUri (destructure props) = prop_redirectUri props"
  "onLoadFailure (destructure props) = prop_onLoadFailure props"
  "onLoginChange (destructure props) = prop_onLoginChange props"
  "onLoginFailure (destructure props) = prop_onLoginFailure props"
  "onLoginSuccess (destructure props) = prop_onLoginSuccess props"
  "onLogoutFailure (destructure props) = prop_onLogoutFailure props"
  "onLogoutSuccess (destructure props) = prop_onLogoutSuccess props"
  by (simp_all add: destructure_def)

lemma clientConfig_fields:
  "cfg_access_type (clientConfig b) = (if stayLoggedIn b then Some Offline else None)"
  "cfg_client_id (clientConfig b) = clientId b"
  "cfg_cookie_policy (clientConfig b) = cookiePolicy b"
  "cfg_fetch_basic_profile (clientConfig b) = fetchBasicProfile b"
  "cfg_hosted_domains (clientConfig b) = hostedDomains b"
  "cfg_redirect_uri (clientConfig b) = (if uxMode b = Redirect then redirectUri b else Some '''')"
  "cfg_scope (clientConfig b) = join '' '' (scope b)"
  "cfg_ux_mode (clientConfig b) = uxMode b"
  by (simp_all add: clientConfig_def Let_def)

lemma signInOptions_scope: "opt_scope (signInOptions b) = join '' '' (scope b)"
  by (simp add: signInOptions_def)

lemma seq_done_with: "seq (done_with xs) r = (xs @ fst r, snd r)"
  by (simp add: seq_def done_with_def)

lemma handleLoginSuccess_cases:
  "fst (handleLoginSuccess b r) = []
   \<or> (\<exists>f obj. handleLoginSuccess b r = ([Call f (Success_arg obj)], None))"
  by (simp add: handleLoginSuccess_def Let_def split: option.split response.split)

lemma handleLoginFailure_cases:
  "handleLoginFailure b err = [] \<or> (\<exists>f. handleLoginFailure b err = [Call f (Error_arg err)])"
  by (simp add: handleLoginFailure_def split: option.split)

lemma sample_bindings:
  "destructure sample_props =
     \<lparr> clientId = ''my-client-id'', cookiePolicy = ''single_host_origin'',
       hostedDomains = None, fetchBasicProfile = None,
       onLoginChange = Some (Fn ''onChange''), onLoginFailure = Some (Fn ''onFailure''),
       onLoadFailure = None, onLoginSuccess = Some (Fn ''onSuccess''),
       onLogoutFailure = Some (Fn ''onLogoutFailure''),
       onLogoutSuccess = Some (Fn ''onLogoutSuccess''),
       prompt = Select_account, redirectUri = Some ''https://app.example/cb'',
       scope = [''profile'', ''email''], src = ''https://apis.google.com/js/platform.js'',
       stayLoggedIn = False, uxMode = Popup \<rparr>"
  by (simp add: destructure_def sample_props_def only_clientId_def or_default_def)

lemma handleLoginSuccess_sample:
  "handleLoginSuccess (destructure sample_props) (Google_user sample_user)
     = ([Call (Fn ''onSuccess'') (Success_arg
          \<lparr> accessToken = ''ya29.a0'',
            profile =
              \<lparr> googleId = ''1001'', imageUrl = ''https://img.example/ada.png'',
                email = ''ada@example.com'', name = ''Ada Byron'',
                givenName = ''Ada'', familyName = ''Byron'' \<rparr>,
            tokenId = ''eyJ.b.c'',
            tokenObject =
              \<lparr> access_token = ''ya29.a0'', id_token = ''eyJ.b.c'', expires_at = 3600 \<rparr> \<rparr>)],
        None)"
  by (simp add: handleLoginSuccess_def Let_def sample_user_def sample_bindings)

lemma getElementById_None_scripts:
  "(getElementById d ''google-script'' = None)
     = (google_scripts (doc_head d @ doc_body d) = [])"
  by (auto simp: getElementById_def google_scripts_def find_None_iff filter_empty_conv)

lemma el_id_script_element: "el_id (script_element c b) = ''google-script''"
  by (simp add: script_element_def)

lemma getElementById_mount_effect:
  "getElementById (mount_effect c b d) ''google-script'' \<noteq> None"
proof (cases "getElementById d ''google-script'' = None")
  case False
  then have "mount_effect c b d = d"
    unfolding mount_effect_def by (simp only: if_False)
  with False show ?thesis by simp
next
  case True
  then have m: "mount_effect c b d = d\<lparr>doc_head := doc_head d @ [script_element c b]\<rparr>"
    by (simp add: mount_effect_def)
  have "script_element c b \<in> set (doc_head (mount_effect c b d) @ doc_body (mount_effect c b d))"
    by (simp add: m)
  then have "\<exists>x. x \<in> set (doc_head (mount_effect c b d) @ doc_body (mount_effect c b d))
      \<and> el_id x = ''google-script''"
    using el_id_script_element by blast
  then show ?thesis
    unfolding getElementById_def find_None_iff by blast
qed

lemma mounts_present:
  "getElementById d ''google-script'' \<noteq> None \<Longrightarrow> mounts ms d = d"
proof (induction ms arbitrary: d)
  case Nil
  show ?case by simp
next
  case (Cons m ms)
  obtain c b where m: "m = (c, b)" by (cases m)
  from Cons.prems have "mount_effect c b d = d"
    unfolding mount_effect_def by (simp only: if_False)
  with Cons m show ?case by simp
qed

lemma mounts_Cons:
  "mounts ((c, b) # ms) d = mount_effect c b d"
  using mounts_present [OF getElementById_mount_effect] by simp

lemma google_scripts_append:
  "google_scripts (xs @ ys) = google_scripts xs @ google_scripts ys"
  by (simp add: google_scripts_def)

lemma google_scripts_script_element:
  "google_scripts (script_element c b # es) = script_element c b # google_scripts es"
  by (simp add: google_scripts_def el_id_script_element)

lemma destructure_uxMode:
  "destructure (props\<lparr>prop_uxMode := Some ux\<rparr>) = (destructure props)\<lparr>uxMode := ux\<rparr>"
  by (simp add: destructure_def or_default_def)


lemma signOut_effects:
  "(ready ga = Resolved u \<and> signOut_settles ga = Resolved v \<longrightarrow>
      signOut b True (Some ga) =
        (Auth_signOut # Auth_disconnect #
           (case onLogoutSuccess b of None \<Rightarrow> [] | Some f \<Rightarrow> [Call f No_arg]), None))
   \<and> (ready ga = Rejected err \<longrightarrow>
        signOut b True (Some ga) = call_unguarded (onLogoutFailure b) (Error_arg err))"
  by (simp add: signOut_def seq_def done_with_def)

lemma signIn_calls_vendor:
  "\<exists>rest. fst (signIn b True (Some ga)) = Auth_signIn (signInOptions b) # rest"
  by (simp add: signIn_def seq_done_with)

lemma signOut_calls_vendor:
  "ready ga = Resolved u \<Longrightarrow> \<exists>rest. fst (signOut b True (Some ga)) = Auth_signOut # rest"
  by (simp add: signOut_def seq_done_with)

lemma signOut_disconnects:
  "ready ga = Resolved u \<Longrightarrow> signOut_settles ga = Resolved v \<Longrightarrow>
     \<exists>rest. fst (signOut b True (Some ga)) = Auth_signOut # Auth_disconnect # rest"
  using signOut_effects [of ga u v b] by simp

lemma not_ready_nothing:
  "\<not> al \<or> inst = None \<Longrightarrow> signIn b al inst = ([], None) \<and> signOut b al inst = ([], None)"
  by (auto simp: signIn_def signOut_def done_with_def)

lemma signInOptions_fields:
  "signInOptions b =
     \<lparr> opt_prompt = prompt b, opt_redirect_uri = redirectUri b,
       opt_scope = join '' '' (scope b), opt_ux_mode = uxMode b \<rparr>"
  by (simp add: signInOptions_def)

lemma destructure_stayLoggedIn:
  "destructure (props\<lparr>prop_stayLoggedIn := Some stay\<rparr>)
     = (destructure props)\<lparr>stayLoggedIn := stay\<rparr>"
  by (simp add: destructure_def or_default_def)

lemma set_state_quiet: "\<not> is_setter e \<Longrightarrow> set_state e st = st"
  by (cases e) simp_all

lemma fold_set_state_quiet: "filter is_setter effs = [] \<Longrightarrow> fold set_state effs st = st"
proof (induction effs arbitrary: st)
  case Nil
  show ?case by simp
next
  case (Cons e effs)
  from Cons.prems have e: "\<not> is_setter e" and rest: "filter is_setter effs = []"
    by (simp_all split: if_splits)
  show ?case using Cons.IH [OF rest] set_state_quiet [OF e] by simp
qed

lemma commit_quiet: "filter is_setter effs = [] \<Longrightarrow> commit c effs hooks = hooks"
  by (simp add: commit_def fold_set_state_quiet)

lemma quiet_handleLoginSuccess: "filter is_setter (fst (handleLoginSuccess b r)) = []"
  using handleLoginSuccess_cases [of b r] by auto

lemma quiet_handleLoginFailure: "filter is_setter (handleLoginFailure b err) = []"
  using handleLoginFailure_cases [of b err] by auto

lemma quiet_seq:
  "filter is_setter (fst r1) = [] \<Longrightarrow> filter is_setter (fst r2) = []
     \<Longrightarrow> filter is_setter (fst (seq r1 r2)) = []"
  by (simp add: seq_def split: option.split)

lemma quiet_done_with: "filter is_setter xs = [] \<Longrightarrow> filter is_setter (fst (done_with xs)) = []"
  by (simp add: done_with_def)

lemma quiet_catch_console:
  "filter is_setter (fst r) = [] \<Longrightarrow> filter is_setter (fst (catch_console r)) = []"
  by (simp add: catch_console_def split: option.split)

lemma quiet_isSignedIn_invoke: "filter is_setter (fst (isSignedIn_invoke m f)) = []"
  by (simp add: isSignedIn_invoke_def)

lemma quiet_call_unguarded: "filter is_setter (fst (call_unguarded f a)) = []"
  by (simp add: call_unguarded_def split: option.split)

lemma quiet_init_fulfilled: "filter is_setter (fst (init_fulfilled b r)) = []"
  unfolding init_fulfilled_def Let_def
  by (intro quiet_seq) (simp_all add: quiet_isSignedIn_invoke quiet_handleLoginSuccess
      done_with_def split: option.split)

lemma quiet_init_rejected: "filter is_setter (fst (init_rejected b err)) = []"
  by (simp add: init_rejected_def done_with_def split: option.split)

lemma quiet_existing_fulfilled: "filter is_setter (fst (existing_fulfilled b ga)) = []"
  unfolding existing_fulfilled_def
  by (intro quiet_seq) (simp_all add: quiet_isSignedIn_invoke quiet_handleLoginSuccess
      done_with_def split: option.split)

lemma quiet_existing_rejected: "filter is_setter (fst (existing_rejected b err)) = []"
  by (simp add: existing_rejected_def done_with_def quiet_handleLoginFailure)

lemma quiet_signIn: "filter is_setter (fst (signIn b al inst)) = []"
proof (cases "al \<and> inst \<noteq> None")
  case False
  then show ?thesis by (auto simp: signIn_def done_with_def)
next
  case True
  then obtain ga where "inst = Some ga" and "al" by auto
  then show ?thesis
    by (simp add: signIn_def seq_def done_with_def quiet_handleLoginSuccess
        quiet_handleLoginFailure split: settled.split)
qed

lemma quiet_signOut: "filter is_setter (fst (signOut b al inst)) = []"
proof (cases "al \<and> inst \<noteq> None")
  case False
  then show ?thesis by (auto simp: signOut_def done_with_def)
next
  case True
  then obtain ga where "inst = Some ga" and "al" by auto
  then show ?thesis
    by (simp add: signOut_def seq_def done_with_def quiet_call_unguarded
        split: settled.split option.split)
qed

lemma quiet_reload_effect: "filter is_setter (fst (reload_effect b al inst)) = []"
proof (cases "al \<and> stayLoggedIn b \<and> inst \<noteq> None")
  case False
  then show ?thesis by (auto simp: reload_effect_def done_with_def)
next
  case True
  then obtain ga where "inst = Some ga" and "al" and "stayLoggedIn b" by auto
  then show ?thesis
    by (simp add: reload_effect_def seq_def done_with_def quiet_handleLoginSuccess
        quiet_handleLoginFailure split: settled.split)
qed

lemma quiet_auth2_error: "filter is_setter (fst (auth2_error b err)) = []"
  by (simp add: auth2_error_def quiet_call_unguarded)

lemma auth2_callback_effects:
  "\<exists>rest. fst (auth2_callback b ga r) = SetAuthLoaded True # rest \<and> filter is_setter rest = []"
proof (cases ga)
  case None
  have "filter is_setter (fst (catch_console
                (case r of
                   Resolved response \<Rightarrow> init_fulfilled b response
                 | Rejected err \<Rightarrow> init_rejected b err
                 | Pending \<Rightarrow> done_with []))) = []"
    by (intro quiet_catch_console)
      (simp add: quiet_init_fulfilled quiet_init_rejected done_with_def split: settled.split)
  then show ?thesis
    by (simp add: None auth2_callback_def seq_done_with)
next
  case (Some g)
  have "filter is_setter (fst (case ready g of
               Resolved u \<Rightarrow> existing_fulfilled b g
             | Rejected err \<Rightarrow> existing_rejected b err
             | Pending \<Rightarrow> done_with [])) = []"
    by (simp add: quiet_existing_fulfilled quiet_existing_rejected done_with_def
        split: settled.split)
  then show ?thesis
    by (simp add: Some auth2_callback_def seq_done_with)
qed

lemma commit_auth2_callback:
  "commit c (fst (auth2_callback b ga r)) hooks = hooks(c := (hooks c)\<lparr>authLoaded := True\<rparr>)"
proof -
  obtain rest where eq: "fst (auth2_callback b ga r) = SetAuthLoaded True # rest"
    and quiet: "filter is_setter rest = []"
    using auth2_callback_effects by blast
  show ?thesis
    by (simp add: commit_def eq fold_set_state_quiet [OF quiet])
qed

lemma fold_commit_load:
  "gapiLoaded (fold (\<lambda>c. commit c load_listener) cs hooks c')
     = (gapiLoaded (hooks c') \<or> c' \<in> set cs)"
  "authLoaded (fold (\<lambda>c. commit c load_listener) cs hooks c') = authLoaded (hooks c')"
  by (induction cs arbitrary: hooks) (auto simp: commit_def load_listener_def)

lemma registered_map_of:
  "(map_of (page_auth2 s) c = None) = (c \<notin> auth2_registered s)"
  by (simp add: auth2_registered_def map_of_eq_None_iff)

lemma step_gapiLoaded:
  "gapiLoaded (page_hooks (step ev s) c)
     = (gapiLoaded (page_hooks s c)
        \<or> (ev = Load_fires
            \<and> (\<exists>el. getElementById (page_document s) ''google-script'' = Some el
                  \<and> c \<in> set (el_load el))))"
proof (cases ev)
  case (Mount c' props)
  then show ?thesis by simp
next
  case Load_fires
  then show ?thesis by (simp add: fold_commit_load split: option.split)
next
  case (Error_fires err)
  then show ?thesis by (simp split: option.split)
next
  case (Init_effect c' props)
  then show ?thesis by (simp add: Let_def)
next
  case (Auth2_loaded c' ga r)
  then show ?thesis by (simp add: Let_def commit_auth2_callback split: option.split)
next
  case (Auth2_failed c' err)
  then show ?thesis
    by (simp add: Let_def commit_quiet [OF quiet_auth2_error] split: option.split)
next
  case (Reload_effect c' props ga)
  then show ?thesis by (simp add: Let_def commit_quiet [OF quiet_reload_effect])
next
  case (Sign_in c' props ga)
  then show ?thesis by (simp add: Let_def commit_quiet [OF quiet_signIn])
next
  case (Sign_out c' props ga)
  then show ?thesis by (simp add: Let_def commit_quiet [OF quiet_signOut])
qed

lemma step_authLoaded:
  "authLoaded (page_hooks (step ev s) c)
     = (authLoaded (page_hooks s c)
        \<or> (\<exists>ga r. ev = Auth2_loaded c ga r \<and> c \<in> auth2_registered s))"
proof (cases ev)
  case (Mount c' props)
  then show ?thesis by simp
next
  case Load_fires
  then show ?thesis by (simp add: fold_commit_load split: option.split)
next
  case (Error_fires err)
  then show ?thesis by (simp split: option.split)
next
  case (Init_effect c' props)
  then show ?thesis by (simp add: Let_def)
next
  case (Auth2_loaded c' ga r)
  show ?thesis
  proof (cases "map_of (page_auth2 s) c'")
    case None
    then have "c' \<notin> auth2_registered s" by (simp add: registered_map_of)
    with None Auth2_loaded show ?thesis by auto
  next
    case (Some b)
    then have "c' \<in> auth2_registered s" using registered_map_of [of s c'] by simp
    with Some Auth2_loaded show ?thesis
      by (auto simp: Let_def commit_auth2_callback)
  qed
next
  case (Auth2_failed c' err)
  then show ?thesis
    by (simp add: Let_def commit_quiet [OF quiet_auth2_error] split: option.split)
next
  case (Reload_effect c' props ga)
  then show ?thesis by (simp add: Let_def commit_quiet [OF quiet_reload_effect])
next
  case (Sign_in c' props ga)
  then show ?thesis by (simp add: Let_def commit_quiet [OF quiet_signIn])
next
  case (Sign_out c' props ga)
  then show ?thesis by (simp add: Let_def commit_quiet [OF quiet_signOut])
qed

lemma step_registered:
  "c \<in> auth2_registered (step ev s) \<Longrightarrow>
     c \<in> auth2_registered s
     \<or> ((\<exists>props. ev = Init_effect c props) \<and> gapiLoaded (page_hooks s c))"
proof (cases ev)
  case (Mount c' props)
  assume "c \<in> auth2_registered (step ev s)"
  with Mount show ?thesis by (simp add: auth2_registered_def)
next
  case Load_fires
  assume "c \<in> auth2_registered (step ev s)"
  with Load_fires show ?thesis by (simp add: auth2_registered_def split: option.splits)
next
  case (Error_fires err)
  assume "c \<in> auth2_registered (step ev s)"
  with Error_fires show ?thesis by (simp add: auth2_registered_def split: option.splits)
next
  case (Init_effect c' props)
  assume "c \<in> auth2_registered (step ev s)"
  with Init_effect show ?thesis
    by (auto simp: auth2_registered_def Let_def init_effect_def split: if_splits)
next
  case (Auth2_loaded c' ga r)
  assume "c \<in> auth2_registered (step ev s)"
  with Auth2_loaded show ?thesis
    using set_remove1_subset [of _ "page_auth2 s"]
    by (auto simp: auth2_registered_def Let_def split: option.splits)
next
  case (Auth2_failed c' err)
  assume "c \<in> auth2_registered (step ev s)"
  with Auth2_failed show ?thesis
    using set_remove1_subset [of _ "page_auth2 s"]
    by (auto simp: auth2_registered_def Let_def split: option.splits)
next
  case (Reload_effect c' props ga)
  assume "c \<in> auth2_registered (step ev s)"
  with Reload_effect show ?thesis by (simp add: auth2_registered_def Let_def)
next
  case (Sign_in c' props ga)
  assume "c \<in> auth2_registered (step ev s)"
  with Sign_in show ?thesis by (simp add: auth2_registered_def Let_def)
next
  case (Sign_out c' props ga)
  assume "c \<in> auth2_registered (step ev s)"
  with Sign_out show ?thesis by (simp add: auth2_registered_def Let_def)
qed

lemma chain_step:
  assumes "\<forall>c. (c \<in> auth2_registered s \<longrightarrow> gapiLoaded (page_hooks s c))
             \<and> (authLoaded (page_hooks s c) \<longrightarrow> gapiLoaded (page_hooks s c))"
  shows "\<forall>c. (c \<in> auth2_registered (step ev s) \<longrightarrow> gapiLoaded (page_hooks (step ev s) c))
             \<and> (authLoaded (page_hooks (step ev s) c) \<longrightarrow> gapiLoaded (page_hooks (step ev s) c))"
proof
  fix c
  from assms have reg: "c \<in> auth2_registered s \<Longrightarrow> gapiLoaded (page_hooks s c)"
    and al: "authLoaded (page_hooks s c) \<Longrightarrow> gapiLoaded (page_hooks s c)"
    by blast+
  have 1: "gapiLoaded (page_hooks (step ev s) c)" if "c \<in> auth2_registered (step ev s)"
    using step_registered [OF that] reg by (auto simp: step_gapiLoaded)
  have 2: "gapiLoaded (page_hooks (step ev s) c)" if "authLoaded (page_hooks (step ev s) c)"
    using that reg al unfolding step_authLoaded step_gapiLoaded by blast
  from 1 2 show "(c \<in> auth2_registered (step ev s) \<longrightarrow> gapiLoaded (page_hooks (step ev s) c))
             \<and> (authLoaded (page_hooks (step ev s) c) \<longrightarrow> gapiLoaded (page_hooks (step ev s) c))"
    by blast
qed

lemma chain_run:
  "\<forall>c. (c \<in> auth2_registered s \<longrightarrow> gapiLoaded (page_hooks s c))
             \<and> (authLoaded (page_hooks s c) \<longrightarrow> gapiLoaded (page_hooks s c))
   \<Longrightarrow> \<forall>c. (c \<in> auth2_registered (run_events evs s)
                \<longrightarrow> gapiLoaded (page_hooks (run_events evs s) c))
             \<and> (authLoaded (page_hooks (run_events evs s) c)
                \<longrightarrow> gapiLoaded (page_hooks (run_events evs s) c))"
proof (induction evs arbitrary: s)
  case Nil
  then show ?case by (simp add: run_events_def)
next
  case (Cons ev evs)
  have "run_events (ev # evs) s = run_events evs (step ev s)"
    by (simp add: run_events_def)
  with Cons.IH [OF chain_step [OF Cons.prems]] show ?case by simp
qed

lemma chain_initial:
  "\<forall>c. (c \<in> auth2_registered (initial_page d) \<longrightarrow> gapiLoaded (page_hooks (initial_page d) c))
      \<and> (authLoaded (page_hooks (initial_page d) c) \<longrightarrow> gapiLoaded (page_hooks (initial_page d) c))"
  by (simp add: initial_page_def auth2_registered_def)

lemma el_load_script_element: "el_load (script_element c b) = [c]"
  by (simp add: script_element_def)

lemma page_after_mount:
  "step (Mount 0 sample_props) (initial_page empty_document)
     = (initial_page empty_document)
         \<lparr>page_document := \<lparr> doc_head = [script_element 0 (destructure sample_props)],
                              doc_body = [] \<rparr>\<rparr>"
  by (simp add: initial_page_def empty_document_def mount_effect_def getElementById_def)

lemma page_auth2_Mount: "page_auth2 (step (Mount c props) s) = page_auth2 s"
  by simp

lemma page_auth2_Load_fires: "page_auth2 (step Load_fires s) = page_auth2 s"
  by (simp split: option.split)

lemma page_auth2_Init_effect:
  "page_auth2 (step (Init_effect c props) s)
     = (if gapiLoaded (page_hooks s c) then page_auth2 s @ [(c, destructure props)]
        else page_auth2 s)"
  by (simp add: Let_def init_effect_def)

section \<open>The claims\<close>

text \<open>
  C1. The first effect appends a script element to the head of the document only when
  the document has no element with id \<open>google-script\<close>: when one exists, a run of the
  effect, and any sequence of runs by any components, leaves the document as it is. After
  any sequence of runs the document is either unchanged, or it had no such element and
  its head has grown by exactly one script element, the one of the first run; so at most
  one script is ever injected, and a document that had no \<open>google-script\<close> element
  holds at most one afterwards.
\<close>

theorem C1_script_injected_once:
  "(getElementById d ''google-script'' \<noteq> None \<longrightarrow> mount_effect c b d = d \<and> mounts ms d = d)
   \<and> (mounts ms d = d
        \<or> (getElementById d ''google-script'' = None
            \<and> (\<exists>c' b'. (c', b') \<in> set ms
                  \<and> mounts ms d = d\<lparr>doc_head := doc_head d @ [script_element c' b']\<rparr>)))
   \<and> length (doc_head (mounts ms d)) \<le> Suc (length (doc_head d))
   \<and> doc_body (mounts ms d) = doc_body d
   \<and> length (google_scripts (doc_head (mounts ms d) @ doc_body (mounts ms d)))
        \<le> max 1 (length (google_scripts (doc_head d @ doc_body d)))"
proof (cases "getElementById d ''google-script'' = None")
  case False
  have same: "mounts ms d = d"
    using False by (rule mounts_present)
  have "mount_effect c b d = d"
    using False unfolding mount_effect_def by (simp only: if_False)
  with False same show ?thesis by simp
next
  case True
  show ?thesis
  proof (cases ms)
    case Nil
    with True show ?thesis by simp
  next
    case (Cons m ms')
    obtain c' b' where m: "m = (c', b')" by (cases m)
    have eq: "mounts ms d = d\<lparr>doc_head := doc_head d @ [script_element c' b']\<rparr>"
      using True unfolding Cons m mounts_Cons by (simp add: mount_effect_def)
    have mem: "(c', b') \<in> set ms" by (simp add: Cons m)
    have none: "google_scripts (doc_head d) = []" "google_scripts (doc_body d) = []"
      using True by (simp_all add: getElementById_None_scripts google_scripts_append)
    have cnt: "google_scripts (doc_head (mounts ms d) @ doc_body (mounts ms d))
        = [script_element c' b']"
      by (simp add: eq google_scripts_append none google_scripts_script_element)
    have ex: "\<exists>c' b'. (c', b') \<in> set ms
        \<and> mounts ms d = d\<lparr>doc_head := doc_head d @ [script_element c' b']\<rparr>"
      using eq mem by blast
    have len: "length (doc_head (mounts ms d)) \<le> Suc (length (doc_head d))"
      and body: "doc_body (mounts ms d) = doc_body d"
      by (simp_all add: eq)
    have bound: "length (google_scripts (doc_head (mounts ms d) @ doc_body (mounts ms d)))
        \<le> max 1 (length (google_scripts (doc_head d @ doc_body d)))"
      by (simp add: cnt)
    from True ex len body bound show ?thesis by blast
  qed
qed

text \<open>
  C1 at a concrete input: three runs of the effect by two components on an empty document
  inject the script of the first run and nothing else.
\<close>

theorem C1_script_injected_once_witness:
  "mounts [(0, destructure sample_props), (1, destructure (only_clientId ''other'')),
           (0, destructure sample_props)] empty_document
     = \<lparr> doc_head = [script_element 0 (destructure sample_props)], doc_body = [] \<rparr>
   \<and> getElementById (mount_effect 0 (destructure sample_props) empty_document) ''google-script''
       = Some (script_element 0 (destructure sample_props))
   \<and> mounts [(1, destructure (only_clientId ''other'')), (0, destructure sample_props)]
        (mount_effect 0 (destructure sample_props) empty_document)
       = mount_effect 0 (destructure sample_props) empty_document"
proof -
  let ?d = "mount_effect 0 (destructure sample_props) empty_document"
  let ?rest = "[(1, destructure (only_clientId ''other'')), (0, destructure sample_props)]"
  have d: "?d = \<lparr> doc_head = [script_element 0 (destructure sample_props)], doc_body = [] \<rparr>"
    by (simp add: mount_effect_def empty_document_def getElementById_def)
  have g: "getElementById ?d ''google-script'' = Some (script_element 0 (destructure sample_props))"
    by (simp add: d getElementById_def script_element_def)
  then have ne: "getElementById ?d ''google-script'' \<noteq> None" by simp
  from C1_script_injected_once [of ?d 1 "destructure (only_clientId ''other'')" ?rest] ne
  have rest: "mounts ?rest ?d = ?d" by blast
  have "mounts ((0, destructure sample_props) # ?rest) empty_document = mounts ?rest ?d"
    by (simp only: mounts.simps)
  then have all: "mounts ((0, destructure sample_props) # ?rest) empty_document
      = \<lparr> doc_head = [script_element 0 (destructure sample_props)], doc_body = [] \<rparr>"
    using rest d by (simp only:)
  from all g rest show ?thesis by blast
qed

text \<open>
  C2 (as amended). With \<open>gapiLoaded\<close> true the second effect asks the vendor to load
  \<open>auth2\<close>; when the callback runs and there is no auth instance, the hook marks the
  auth client as loaded and calls \<open>gapi.auth2.init\<close> with the configuration built from
  the properties: \<open>client_id\<close> is clientId, \<open>cookie_policy\<close> is cookiePolicy,
  \<open>fetch_basic_profile\<close> is fetchBasicProfile, \<open>hosted_domains\<close> is hostedDomains,
  \<open>scope\<close> is the scope array joined by single spaces, \<open>ux_mode\<close> is uxMode,
  \<open>access_type\<close> is \<open>'offline'\<close> exactly when stayLoggedIn is true (and absent
  otherwise), and \<open>redirect_uri\<close> is redirectUri when uxMode is \<open>'redirect'\<close> and the
  empty string otherwise.
\<close>

theorem C2_client_config:
  "init_effect b True = [Gapi_load ''auth2'']
   \<and> (\<exists>rest. fst (auth2_callback b None init_settles)
        = SetAuthLoaded True # Auth2_init (clientConfig b) # rest)
   \<and> cfg_client_id (clientConfig b) = clientId b
   \<and> cfg_cookie_policy (clientConfig b) = cookiePolicy b
   \<and> cfg_fetch_basic_profile (clientConfig b) = fetchBasicProfile b
   \<and> cfg_hosted_domains (clientConfig b) = hostedDomains b
   \<and> cfg_scope (clientConfig b) = join '' '' (scope b)
   \<and> cfg_ux_mode (clientConfig b) = uxMode b
   \<and> cfg_redirect_uri (clientConfig b) = (if uxMode b = Redirect then redirectUri b else Some '''')
   \<and> (cfg_access_type (clientConfig b) = Some Offline) = stayLoggedIn b
   \<and> (cfg_access_type (clientConfig b) = None) = (\<not> stayLoggedIn b)"
proof -
  have "fst (auth2_callback b None init_settles)
      = SetAuthLoaded True # Auth2_init (clientConfig b) #
          fst (catch_console
                (case init_settles of
                   Resolved response \<Rightarrow> init_fulfilled b response
                 | Rejected err \<Rightarrow> init_rejected b err
                 | Pending \<Rightarrow> done_with []))"
    by (simp add: auth2_callback_def seq_done_with)
  then have "\<exists>rest. fst (auth2_callback b None init_settles)
        = SetAuthLoaded True # Auth2_init (clientConfig b) # rest"
    by blast
  then show ?thesis
    by (simp add: init_effect_def clientConfig_fields)
qed

text \<open>
  C2 at concrete inputs: with uxMode \<open>'redirect'\<close> the caller's redirectUri reaches the
  configuration, the scope \<open>['profile', 'email']\<close> becomes \<open>'profile email'\<close>, and
  \<open>access_type\<close> follows stayLoggedIn.
\<close>

theorem C2_client_config_witness:
  "cfg_redirect_uri (clientConfig (destructure (sample_props\<lparr>prop_uxMode := Some Redirect\<rparr>)))
      = Some ''https://app.example/cb''
   \<and> cfg_scope (clientConfig (destructure (sample_props\<lparr>prop_uxMode := Some Redirect\<rparr>)))
      = ''profile email''
   \<and> cfg_access_type (clientConfig (destructure (sample_props\<lparr>prop_stayLoggedIn := Some True\<rparr>)))
      = Some Offline
   \<and> cfg_access_type (clientConfig (destructure sample_props)) = None"
proof -
  let ?r = "destructure (sample_props\<lparr>prop_uxMode := Some Redirect\<rparr>)"
  let ?s = "destructure (sample_props\<lparr>prop_stayLoggedIn := Some True\<rparr>)"
  have r: "uxMode ?r = Redirect" "redirectUri ?r = Some ''https://app.example/cb''"
    "scope ?r = [''profile'', ''email'']"
    by (simp_all add: destructure_uxMode sample_bindings)
  have s: "stayLoggedIn ?s" "\<not> stayLoggedIn (destructure sample_props)"
    by (simp_all add: destructure_stayLoggedIn sample_bindings)
  from C2_client_config [of ?r] r
  have 1: "cfg_redirect_uri (clientConfig ?r) = Some ''https://app.example/cb''"
    and 2: "cfg_scope (clientConfig ?r) = ''profile email''"
    by simp_all
  from C2_client_config [of ?s] s
  have 3: "cfg_access_type (clientConfig ?s) = Some Offline" by blast
  from C2_client_config [of "destructure sample_props"] s
  have 4: "cfg_access_type (clientConfig (destructure sample_props)) = None" by blast
  from 1 2 3 4 show ?thesis by blast
qed

text \<open>
  C2 as the claim states it fails: with uxMode left at its default \<open>'popup'\<close> and a
  redirectUri supplied, the configuration handed to \<open>gapi.auth2.init\<close> has the empty
  string as \<open>redirect_uri\<close>, not the caller's redirectUri (line 68).
\<close>

theorem C2_counterexample:
  "redirectUri (destructure sample_props) = Some ''https://app.example/cb''
   \<and> fst (auth2_callback (destructure sample_props) None Pending)
       = [SetAuthLoaded True, Auth2_init (clientConfig (destructure sample_props))]
   \<and> cfg_redirect_uri (clientConfig (destructure sample_props)) = Some ''''
   \<and> cfg_redirect_uri (clientConfig (destructure sample_props))
       \<noteq> redirectUri (destructure sample_props)"
proof -
  have "fst (auth2_callback (destructure sample_props) None Pending)
       = [SetAuthLoaded True, Auth2_init (clientConfig (destructure sample_props))]"
    by (simp add: auth2_callback_def seq_def catch_console_def done_with_def)
  then show ?thesis
    by (simp add: clientConfig_fields destructure_fields sample_props_def only_clientId_def or_default_def)
qed




text \<open>
  C4. On a page reached from the initial one by any events, and for its next event:
  \<open>gapiLoaded\<close> of a component goes from false to true only when the \<open>load\<close> event of
  the script fires and the script carries that component's listener; \<open>authLoaded\<close> goes
  from false to true only in the callback of \<open>gapi.load\<close> of that component, which
  must be registered; a callback gets registered only by the second effect of a component
  whose \<open>gapiLoaded\<close> is true, and while one is registered \<open>gapiLoaded\<close> is true;
  neither flag goes back to false; and \<open>authLoaded\<close> is never true while
  \<open>gapiLoaded\<close> is false, before the event and after it.
\<close>

theorem C4_loading_chain:
  assumes "s = run_events evs (initial_page d)" and "s' = step ev s"
  shows "(\<not> gapiLoaded (page_hooks s c) \<and> gapiLoaded (page_hooks s' c) \<longrightarrow>
            ev = Load_fires
            \<and> (\<exists>el. getElementById (page_document s) ''google-script'' = Some el
                  \<and> c \<in> set (el_load el)))
       \<and> (\<not> authLoaded (page_hooks s c) \<and> authLoaded (page_hooks s' c) \<longrightarrow>
            (\<exists>ga r. ev = Auth2_loaded c ga r) \<and> c \<in> auth2_registered s)
       \<and> (c \<notin> auth2_registered s \<and> c \<in> auth2_registered s' \<longrightarrow>
            (\<exists>props. ev = Init_effect c props) \<and> gapiLoaded (page_hooks s c))
       \<and> (c \<in> auth2_registered s \<longrightarrow> gapiLoaded (page_hooks s c))
       \<and> (gapiLoaded (page_hooks s c) \<longrightarrow> gapiLoaded (page_hooks s' c))
       \<and> (authLoaded (page_hooks s c) \<longrightarrow> authLoaded (page_hooks s' c))
       \<and> (authLoaded (page_hooks s c) \<longrightarrow> gapiLoaded (page_hooks s c))
       \<and> (authLoaded (page_hooks s' c) \<longrightarrow> gapiLoaded (page_hooks s' c))"
proof -
  have inv: "\<forall>c. (c \<in> auth2_registered s \<longrightarrow> gapiLoaded (page_hooks s c))
             \<and> (authLoaded (page_hooks s c) \<longrightarrow> gapiLoaded (page_hooks s c))"
    unfolding assms(1) by (rule chain_run [OF chain_initial])
  have inv': "\<forall>c. (c \<in> auth2_registered s' \<longrightarrow> gapiLoaded (page_hooks s' c))
             \<and> (authLoaded (page_hooks s' c) \<longrightarrow> gapiLoaded (page_hooks s' c))"
    unfolding assms(2) by (rule chain_step [OF inv])
  have g: "gapiLoaded (page_hooks s' c)
     = (gapiLoaded (page_hooks s c)
        \<or> (ev = Load_fires
            \<and> (\<exists>el. getElementById (page_document s) ''google-script'' = Some el
                  \<and> c \<in> set (el_load el))))"
    unfolding assms(2) by (rule step_gapiLoaded)
  have a: "authLoaded (page_hooks s' c)
     = (authLoaded (page_hooks s c)
        \<or> (\<exists>ga r. ev = Auth2_loaded c ga r \<and> c \<in> auth2_registered s))"
    unfolding assms(2) by (rule step_authLoaded)
  have r: "c \<in> auth2_registered s' \<Longrightarrow>
     c \<in> auth2_registered s
     \<or> ((\<exists>props. ev = Init_effect c props) \<and> gapiLoaded (page_hooks s c))"
    unfolding assms(2) by (rule step_registered)
  from inv inv' g a r show ?thesis by blast
qed

text \<open>
  C4 on a concrete run: a component mounts on an empty document, the script loads
  (\<open>gapiLoaded\<close> turns true), the second effect registers the callback, and the callback
  turns \<open>authLoaded\<close> true.
\<close>

theorem C4_loading_chain_witness:
  "\<not> gapiLoaded (page_hooks (run_events [Mount 0 sample_props] (initial_page empty_document)) 0)
   \<and> gapiLoaded (page_hooks
         (step Load_fires (run_events [Mount 0 sample_props] (initial_page empty_document))) 0)
   \<and> \<not> authLoaded (page_hooks
         (run_events [Mount 0 sample_props, Load_fires, Init_effect 0 sample_props]
            (initial_page empty_document)) 0)
   \<and> authLoaded (page_hooks
         (step (Auth2_loaded 0 None Pending)
            (run_events [Mount 0 sample_props, Load_fires, Init_effect 0 sample_props]
               (initial_page empty_document))) 0)
   \<and> 0 \<in> auth2_registered
         (run_events [Mount 0 sample_props, Load_fires, Init_effect 0 sample_props]
            (initial_page empty_document))
   \<and> gapiLoaded (page_hooks
         (run_events [Mount 0 sample_props, Load_fires, Init_effect 0 sample_props]
            (initial_page empty_document)) 0)"
proof -
  let ?s1 = "run_events [Mount 0 sample_props] (initial_page empty_document)"
  let ?s3 = "run_events [Mount 0 sample_props, Load_fires, Init_effect 0 sample_props]
               (initial_page empty_document)"
  have s1: "?s1 = step (Mount 0 sample_props) (initial_page empty_document)"
    by (simp add: run_events_def)
  have s3: "?s3 = step (Init_effect 0 sample_props) (step Load_fires ?s1)"
    by (simp add: run_events_def)
  have g1: "\<not> gapiLoaded (page_hooks ?s1 0)"
    unfolding s1 page_after_mount by (simp add: initial_page_def)
  have el: "getElementById (page_document ?s1) ''google-script''
      = Some (script_element 0 (destructure sample_props))"
    unfolding s1 page_after_mount by (simp add: getElementById_def el_id_script_element)
  have g2: "gapiLoaded (page_hooks (step Load_fires ?s1) 0)"
    unfolding step_gapiLoaded using el by (simp add: el_load_script_element)
  have a3: "\<not> authLoaded (page_hooks ?s3 0)"
    unfolding s3 step_authLoaded s1 page_after_mount by (simp add: initial_page_def)
  have reg: "page_auth2 ?s3 = [(0, destructure sample_props)]"
    unfolding s3 page_auth2_Init_effect page_auth2_Load_fires s1 page_auth2_Mount
    using g2 [unfolded s1] by (simp add: initial_page_def)
  have a4: "authLoaded (page_hooks (step (Auth2_loaded 0 None Pending) ?s3) 0)"
    unfolding step_authLoaded by (simp add: auth2_registered_def reg)
  from C4_loading_chain [where evs = "[Mount 0 sample_props]" and d = empty_document
      and ev = Load_fires and c = 0, OF refl refl]
    C4_loading_chain [where evs = "[Mount 0 sample_props, Load_fires, Init_effect 0 sample_props]"
      and d = empty_document and ev = "Auth2_loaded 0 None Pending" and c = 0, OF refl refl]
    g1 g2 a3 a4
  show ?thesis by blast
qed

text \<open>
  C5 fails on the code in the branch for an auth instance that exists already. A caller
  supplies onLoginChange and the callback of \<open>gapi.load\<close> finds a ready instance: line
  127 invokes \<open>isSignedIn.listener\<close>, which the vendor object does not have, so a
  TypeError is thrown, no listener is registered and a later change of the session calls
  nothing. In the branch that initializes the client (line 95, \<open>isSignedIn.listen\<close>) the
  same caller's function is registered and receives the new value.
\<close>

theorem C5_listener_not_registered:
  "auth2_callback (destructure sample_props) (Some sample_auth) Pending
     = ([SetAuthLoaded True], Some TypeError)
   \<and> listeners (fst (auth2_callback (destructure sample_props) (Some sample_auth) Pending)) = []
   \<and> session_change
        (fst (auth2_callback (destructure sample_props) (Some sample_auth) Pending)) False = []
   \<and> listeners (fst (auth2_callback (destructure sample_props) None (Resolved sample_auth)))
       = [Fn ''onChange'']
   \<and> session_change
        (fst (auth2_callback (destructure sample_props) None (Resolved sample_auth))) False
       = [Call (Fn ''onChange'') (Bool_arg False)]"
proof -
  have oc: "onLoginChange (destructure sample_props) = Some (Fn ''onChange'')"
    and st: "\<not> stayLoggedIn (destructure sample_props)"
    by (simp_all add: sample_bindings)
  have a: "auth2_callback (destructure sample_props) (Some sample_auth) Pending
     = ([SetAuthLoaded True], Some TypeError)"
    by (simp add: oc st auth2_callback_def existing_fulfilled_def seq_def done_with_def
        isSignedIn_invoke_def isSignedIn_methods_def sample_auth_def)
  have b: "fst (auth2_callback (destructure sample_props) None (Resolved sample_auth))
     = SetAuthLoaded True # Auth2_init (clientConfig (destructure sample_props))
         # IsSignedIn_listen (Fn ''onChange'')
         # fst (handleLoginSuccess (destructure sample_props) (Google_user sample_user))"
    by (simp add: oc auth2_callback_def init_fulfilled_def seq_def done_with_def
        isSignedIn_invoke_def isSignedIn_methods_def sample_auth_def catch_console_def Let_def
        handleLoginSuccess_sample)
  have c: "listeners (fst (handleLoginSuccess (destructure sample_props) (Google_user sample_user)))
      = []"
    by (simp add: handleLoginSuccess_sample listeners_def)
  have d: "listeners (x # xs) = listeners [x] @ listeners xs" for x xs
    by (simp add: listeners_def)
  have e: "listeners (fst (auth2_callback (destructure sample_props) None (Resolved sample_auth)))
       = [Fn ''onChange'']"
    unfolding b by (subst d, subst (2) d, subst (3) d) (simp add: c, simp add: listeners_def)
  show ?thesis
    by (simp add: a e session_change_def) (simp add: listeners_def)
qed

text \<open>
  C6. When the vendor promise of a sign-in rejects with an error, the hook does the vendor
  call and then invokes onLoginFailure with that error when the caller supplied it, and
  nothing when not; no call with a success object is made. For every sign-in, whatever the
  vendor does, the calls with a success object and the calls with an error are never both
  present.
\<close>

theorem C6_login_failure:
  "signIn_settles ga = Rejected err \<Longrightarrow>
     signIn b True (Some ga) =
       (Auth_signIn (signInOptions b) #
          (case onLoginFailure b of None \<Rightarrow> [] | Some f \<Rightarrow> [Call f (Error_arg err)]), None)
     \<and> filter is_success_call (fst (signIn b True (Some ga))) = []
     \<and> (filter is_success_call (fst (signIn b al inst)) = []
          \<or> filter is_failure_call (fst (signIn b al inst)) = [])"
proof -
  assume rej: "signIn_settles ga = Rejected err"
  have one: "signIn b True (Some ga) =
       (Auth_signIn (signInOptions b) #
          (case onLoginFailure b of None \<Rightarrow> [] | Some f \<Rightarrow> [Call f (Error_arg err)]), None)"
    using rej by (simp add: signIn_def seq_def done_with_def handleLoginFailure_def)
  have two: "filter is_success_call (fst (signIn b True (Some ga))) = []"
    by (simp add: one split: option.split)
  have three: "filter is_success_call (fst (signIn b al inst)) = []
          \<or> filter is_failure_call (fst (signIn b al inst)) = []"
  proof (cases "al \<and> inst \<noteq> None")
    case False
    then show ?thesis by (auto simp: signIn_def done_with_def)
  next
    case True
    then obtain g where g: "inst = Some g" and al: "al" by auto
    show ?thesis
    proof (cases "signIn_settles g")
      case (Resolved u)
      then show ?thesis
        using handleLoginSuccess_cases [of b u] g al
        by (auto simp: signIn_def seq_def done_with_def)
    next
      case (Rejected e)
      then show ?thesis
        using handleLoginFailure_cases [of b e] g al
        by (auto simp: signIn_def seq_def done_with_def)
    next
      case Pending
      then show ?thesis using g al by (simp add: signIn_def seq_def done_with_def)
    qed
  qed
  from one two three show ?thesis by blast
qed

text \<open>
  C6 at concrete inputs: the vendor rejects with \<open>popup_closed_by_user\<close>; a caller with
  onLoginFailure receives the error once, a caller without it receives nothing.
\<close>

theorem C6_login_failure_witness:
  "signIn_settles (sample_auth\<lparr>signIn_settles := Rejected (Vendor ''popup_closed_by_user'')\<rparr>)
      = Rejected (Vendor ''popup_closed_by_user'')
   \<and> signIn (destructure sample_props) True
        (Some (sample_auth\<lparr>signIn_settles := Rejected (Vendor ''popup_closed_by_user'')\<rparr>)) =
       ([Auth_signIn (signInOptions (destructure sample_props)),
         Call (Fn ''onFailure'') (Error_arg (Vendor ''popup_closed_by_user''))], None)
   \<and> signIn (destructure (only_clientId ''my-client-id'')) True
        (Some (sample_auth\<lparr>signIn_settles := Rejected (Vendor ''popup_closed_by_user'')\<rparr>)) =
       ([Auth_signIn (signInOptions (destructure (only_clientId ''my-client-id'')))], None)"
proof -
  let ?ga = "sample_auth\<lparr>signIn_settles := Rejected (Vendor ''popup_closed_by_user'')\<rparr>"
  have rej: "signIn_settles ?ga = Rejected (Vendor ''popup_closed_by_user'')" by simp
  have f: "onLoginFailure (destructure sample_props) = Some (Fn ''onFailure'')"
    by (simp add: sample_bindings)
  have n: "onLoginFailure (destructure (only_clientId ''my-client-id'')) = None"
    by (simp add: destructure_fields only_clientId_def)
  from C6_login_failure [OF rej, of "destructure sample_props"]
    C6_login_failure [OF rej, of "destructure (only_clientId ''my-client-id'')"] f n rej
  show ?thesis by simp
qed

text \<open>
  C7 fails on the code where the caller omitted onLogoutFailure. With the auth client
  loaded and an instance present whose readiness promise rejects, line 189 calls
  \<open>onLogoutFailure(error)\<close> without the guard its siblings have: for a caller that
  passes clientId alone the call of \<open>undefined\<close> throws a TypeError and no caller
  function is invoked. With onLogoutFailure supplied the same rejection reaches it with the
  vendor error, and a successful sign-out calls \<open>signOut\<close>, \<open>disconnect\<close> and then
  onLogoutSuccess exactly when supplied (the guarded sibling at line 183), as the claim
  says.
\<close>

theorem C7_logout_failure_unguarded:
  "onLogoutFailure (destructure (only_clientId ''my-client-id'')) = None
   \<and> signOut (destructure (only_clientId ''my-client-id'')) True
        (Some (sample_auth\<lparr>ready := Rejected (Vendor ''idpiframe_initialization_failed'')\<rparr>)) =
     ([], Some TypeError)
   \<and> signOut (destructure sample_props) True
        (Some (sample_auth\<lparr>ready := Rejected (Vendor ''idpiframe_initialization_failed'')\<rparr>)) =
     ([Call (Fn ''onLogoutFailure'') (Error_arg (Vendor ''idpiframe_initialization_failed''))], None)
   \<and> signOut (destructure sample_props) True (Some sample_auth) =
     ([Auth_signOut, Auth_disconnect, Call (Fn ''onLogoutSuccess'') No_arg], None)
   \<and> signOut (destructure (only_clientId ''my-client-id'')) True (Some sample_auth) =
     ([Auth_signOut, Auth_disconnect], None)"
proof -
  let ?bad = "sample_auth\<lparr>ready := Rejected (Vendor ''idpiframe_initialization_failed'')\<rparr>"
  have ok: "ready sample_auth = Resolved () \<and> signOut_settles sample_auth = Resolved ()"
    by (simp add: sample_auth_def)
  have bad: "ready ?bad = Rejected (Vendor ''idpiframe_initialization_failed'')" by simp
  have s: "onLogoutSuccess (destructure sample_props) = Some (Fn ''onLogoutSuccess'')"
    and f: "onLogoutFailure (destructure sample_props) = Some (Fn ''onLogoutFailure'')"
    by (simp_all add: sample_bindings)
  have n: "onLogoutSuccess (destructure (only_clientId ''my-client-id'')) = None"
    and m: "onLogoutFailure (destructure (only_clientId ''my-client-id'')) = None"
    by (simp_all add: destructure_fields only_clientId_def)
  from signOut_effects [of sample_auth "()" "()" "destructure sample_props"]
    signOut_effects [of sample_auth "()" "()" "destructure (only_clientId ''my-client-id'')"]
    signOut_effects [of ?bad _ _ "destructure sample_props"
      "Vendor ''idpiframe_initialization_failed''"]
    signOut_effects [of ?bad _ _ "destructure (only_clientId ''my-client-id'')"
      "Vendor ''idpiframe_initialization_failed''"]
    ok bad s f n m
  show ?thesis by (simp add: call_unguarded_def)
qed

text \<open>
  C8. For every properties object and state, the hook returns an object with exactly the
  two fields \<open>signIn\<close> and \<open>signOut\<close>, in this order, and each is a function bound to
  the vendor's auth client. Called in a render with \<open>authLoaded\<close> true on the instance
  \<open>gapi.auth2.getAuthInstance()\<close> answers, \<open>signIn\<close> first calls the instance's
  \<open>signIn\<close> with the options built from the properties (prompt, redirectUri, the scope
  joined by spaces, uxMode); \<open>signOut\<close>, once the instance is ready, first calls the
  instance's \<open>signOut\<close> and, when that resolves, \<open>disconnect\<close> next. With
  \<open>authLoaded\<close> false, or with no instance, both do nothing.
\<close>

theorem C8_returned_object:
  "map fst (useGoogleAuth props st) = [''signIn'', ''signOut'']
   \<and> (\<exists>si so.
         useGoogleAuth props st = [(''signIn'', si), (''signOut'', so)]
         \<and> (\<forall>ga. authLoaded st \<longrightarrow>
               (\<exists>rest. fst (si (Some ga)) =
                  Auth_signIn
                    \<lparr> opt_prompt = prompt (destructure props),
                      opt_redirect_uri = redirectUri (destructure props),
                      opt_scope = join '' '' (scope (destructure props)),
                      opt_ux_mode = uxMode (destructure props) \<rparr> # rest))
         \<and> (\<forall>ga u. authLoaded st \<and> ready ga = Resolved u \<longrightarrow>
               (\<exists>rest. fst (so (Some ga)) = Auth_signOut # rest))
         \<and> (\<forall>ga u v. authLoaded st \<and> ready ga = Resolved u \<and> signOut_settles ga = Resolved v \<longrightarrow>
               (\<exists>rest. fst (so (Some ga)) = Auth_signOut # Auth_disconnect # rest))
         \<and> (\<forall>inst. \<not> authLoaded st \<longrightarrow> si inst = ([], None) \<and> so inst = ([], None))
         \<and> si None = ([], None) \<and> so None = ([], None))"
proof -
  let ?b = "destructure props"
  let ?si = "signIn ?b (authLoaded st)"
  let ?so = "signOut ?b (authLoaded st)"
  have obj: "useGoogleAuth props st = [(''signIn'', ?si), (''signOut'', ?so)]"
    by (simp add: useGoogleAuth_def Let_def)
  have keys: "map fst (useGoogleAuth props st) = [''signIn'', ''signOut'']"
    by (simp add: obj)
  have 1: "\<forall>ga. authLoaded st \<longrightarrow>
               (\<exists>rest. fst (?si (Some ga)) =
                  Auth_signIn
                    \<lparr> opt_prompt = prompt ?b, opt_redirect_uri = redirectUri ?b,
                      opt_scope = join '' '' (scope ?b), opt_ux_mode = uxMode ?b \<rparr> # rest)"
    using signIn_calls_vendor [of ?b] by (simp add: signInOptions_fields)
  have 2: "\<forall>ga u. authLoaded st \<and> ready ga = Resolved u \<longrightarrow>
               (\<exists>rest. fst (?so (Some ga)) = Auth_signOut # rest)"
    using signOut_calls_vendor [of _ _ ?b] by simp
  have 3: "\<forall>ga u v. authLoaded st \<and> ready ga = Resolved u \<and> signOut_settles ga = Resolved v \<longrightarrow>
               (\<exists>rest. fst (?so (Some ga)) = Auth_signOut # Auth_disconnect # rest)"
    using signOut_disconnects [of _ _ _ ?b] by simp
  have 4: "\<forall>inst. \<not> authLoaded st \<longrightarrow> ?si inst = ([], None) \<and> ?so inst = ([], None)"
    using not_ready_nothing [of "authLoaded st" _ ?b] by blast
  have 5: "?si None = ([], None)" and 6: "?so None = ([], None)"
    using not_ready_nothing [of "authLoaded st" None ?b] by blast+
  have "\<exists>si so.
         useGoogleAuth props st = [(''signIn'', si), (''signOut'', so)]
         \<and> (\<forall>ga. authLoaded st \<longrightarrow>
               (\<exists>rest. fst (si (Some ga)) =
                  Auth_signIn
                    \<lparr> opt_prompt = prompt ?b, opt_redirect_uri = redirectUri ?b,
                      opt_scope = join '' '' (scope ?b), opt_ux_mode = uxMode ?b \<rparr> # rest))
         \<and> (\<forall>ga u. authLoaded st \<and> ready ga = Resolved u \<longrightarrow>
               (\<exists>rest. fst (so (Some ga)) = Auth_signOut # rest))
         \<and> (\<forall>ga u v. authLoaded st \<and> ready ga = Resolved u \<and> signOut_settles ga = Resolved v \<longrightarrow>
               (\<exists>rest. fst (so (Some ga)) = Auth_signOut # Auth_disconnect # rest))
         \<and> (\<forall>inst. \<not> authLoaded st \<longrightarrow> si inst = ([], None) \<and> so inst = ([], None))
         \<and> si None = ([], None) \<and> so None = ([], None)"
  proof (rule exI [of _ ?si], rule exI [of _ ?so], intro conjI)
    show "useGoogleAuth props st = [(''signIn'', ?si), (''signOut'', ?so)]" by (rule obj)
  qed (rule 1 2 3 4 5 6)+
  with keys show ?thesis by (rule conjI)
qed

text \<open>
  C8 at a concrete input: in a render with \<open>authLoaded\<close> true, the two fields of the
  returned object, called on the sample auth client, do the vendor's sign-in with the
  options of the sample caller and the vendor's sign-out followed by disconnect.
\<close>

theorem C8_returned_object_witness:
  "\<exists>si so.
     useGoogleAuth sample_props \<lparr> gapiLoaded = True, authLoaded = True \<rparr>
       = [(''signIn'', si), (''signOut'', so)]
     \<and> (\<exists>rest. fst (si (Some sample_auth)) =
           Auth_signIn
             \<lparr> opt_prompt = Select_account,
               opt_redirect_uri = Some ''https://app.example/cb'',
               opt_scope = ''profile email'',
               opt_ux_mode = Popup \<rparr> # rest)
     \<and> (\<exists>rest. fst (so (Some sample_auth)) = Auth_signOut # Auth_disconnect # rest)
     \<and> si None = ([], None) \<and> so None = ([], None)"
proof -
  let ?st = "\<lparr> gapiLoaded = True, authLoaded = True \<rparr>"
  from C8_returned_object [of sample_props ?st]
  obtain si so where obj: "useGoogleAuth sample_props ?st = [(''signIn'', si), (''signOut'', so)]"
    and 1: "\<forall>ga. authLoaded ?st \<longrightarrow>
               (\<exists>rest. fst (si (Some ga)) =
                  Auth_signIn
                    \<lparr> opt_prompt = prompt (destructure sample_props),
                      opt_redirect_uri = redirectUri (destructure sample_props),
                      opt_scope = join '' '' (scope (destructure sample_props)),
                      opt_ux_mode = uxMode (destructure sample_props) \<rparr> # rest)"
    and 3: "\<forall>ga u v. authLoaded ?st \<and> ready ga = Resolved u \<and> signOut_settles ga = Resolved v \<longrightarrow>
               (\<exists>rest. fst (so (Some ga)) = Auth_signOut # Auth_disconnect # rest)"
    and 5: "si None = ([], None)" "so None = ([], None)"
    by blast
  have opts: "prompt (destructure sample_props) = Select_account"
    "redirectUri (destructure sample_props) = Some ''https://app.example/cb''"
    "join '' '' (scope (destructure sample_props)) = ''profile email''"
    "uxMode (destructure sample_props) = Popup"
    by (simp_all add: sample_bindings)
  have ok: "ready sample_auth = Resolved ()" "signOut_settles sample_auth = Resolved ()"
    by (simp_all add: sample_auth_def)
  from 1 have a: "\<exists>rest. fst (si (Some sample_auth)) =
           Auth_signIn
             \<lparr> opt_prompt = Select_account,
               opt_redirect_uri = Some ''https://app.example/cb'',
               opt_scope = ''profile email'',
               opt_ux_mode = Popup \<rparr> # rest"
    by (simp add: opts)
  from 3 ok have b: "\<exists>rest. fst (so (Some sample_auth)) = Auth_signOut # Auth_disconnect # rest"
    by simp
  from obj a b 5 show ?thesis by blast
qed

text \<open>
  C9. A call of \<open>signIn\<close> or \<open>signOut\<close> while \<open>authLoaded\<close> is false, or while
  \<open>gapi.auth2.getAuthInstance()\<close> answers no instance, returns having done nothing: no
  vendor sign-in, sign-out or disconnect, no call of a caller's function, no exception.
\<close>

theorem C9_not_ready:
  "\<not> al \<or> inst = None \<Longrightarrow>
     signIn b al inst = ([], None) \<and> signOut b al inst = ([], None)
     \<and> filter is_sign_operation (fst (signIn b al inst) @ fst (signOut b al inst)) = []
     \<and> filter is_call (fst (signIn b al inst) @ fst (signOut b al inst)) = []"
  by (auto simp: signIn_def signOut_def done_with_def)

text \<open>
  C9 at concrete inputs: \<open>authLoaded\<close> false with an instance, and \<open>authLoaded\<close> true
  with none.
\<close>

theorem C9_not_ready_witness:
  "signIn (destructure sample_props) False (Some sample_auth) = ([], None)
   \<and> signOut (destructure sample_props) False (Some sample_auth) = ([], None)
   \<and> signIn (destructure sample_props) True None = ([], None)
   \<and> signOut (destructure sample_props) True None = ([], None)"
  using C9_not_ready [of False "Some sample_auth" "destructure sample_props"]
    C9_not_ready [of True None "destructure sample_props"]
  by simp

text \<open>
  C10 (as amended). When the caller omits the corresponding property, destructuring gives
  the default: cookiePolicy \<open>'single_host_origin'\<close>, prompt \<open>'select_account'\<close>, scope
  \<open>['profile']\<close> (so the scope string handed to the vendor is \<open>'profile'\<close>), src
  \<open>'https://apis.google.com/js/platform.js'\<close>, stayLoggedIn \<open>false\<close>, uxMode
  \<open>'popup'\<close>; a value the caller supplies wins over the default. The other properties
  have no default: clientId (the only required one), and hostedDomains,
  fetchBasicProfile, redirectUri and the six callbacks, which reach the hook as the caller
  gave them, undefined when omitted.
\<close>

theorem C10_defaults:
  "cookiePolicy (destructure (props\<lparr>prop_cookiePolicy := None\<rparr>)) = ''single_host_origin''
   \<and> prompt (destructure (props\<lparr>prop_prompt := None\<rparr>)) = Select_account
   \<and> scope (destructure (props\<lparr>prop_scope := None\<rparr>)) = [''profile'']
   \<and> cfg_scope (clientConfig (destructure (props\<lparr>prop_scope := None\<rparr>))) = ''profile''
   \<and> opt_scope (signInOptions (destructure (props\<lparr>prop_scope := None\<rparr>))) = ''profile''
   \<and> src (destructure (props\<lparr>prop_src := None\<rparr>)) = ''https://apis.google.com/js/platform.js''
   \<and> stayLoggedIn (destructure (props\<lparr>prop_stayLoggedIn := None\<rparr>)) = False
   \<and> uxMode (destructure (props\<lparr>prop_uxMode := None\<rparr>)) = Popup
   \<and> cookiePolicy (destructure (props\<lparr>prop_cookiePolicy := Some cp\<rparr>)) = cp
   \<and> prompt (destructure (props\<lparr>prop_prompt := Some pr\<rparr>)) = pr
   \<and> scope (destructure (props\<lparr>prop_scope := Some sc\<rparr>)) = sc
   \<and> src (destructure (props\<lparr>prop_src := Some url\<rparr>)) = url
   \<and> stayLoggedIn (destructure (props\<lparr>prop_stayLoggedIn := Some stay\<rparr>)) = stay
   \<and> uxMode (destructure (props\<lparr>prop_uxMode := Some ux\<rparr>)) = ux
   \<and> clientId (destructure props) = prop_clientId props
   \<and> hostedDomains (destructure props) = prop_hostedDomains props
   \<and> fetchBasicProfile (destructure props) = prop_fetchBasicProfile props
   \<and> redirectUri (destructure props) = prop_redirectUri props
   \<and> onLoadFailure (destructure props) = prop_onLoadFailure props
   \<and> onLoginChange (destructure props) = prop_onLoginChange props
   \<and> onLoginFailure (destructure props) = prop_onLoginFailure props
   \<and> onLoginSuccess (destructure props) = prop_onLoginSuccess props
   \<and> onLogoutFailure (destructure props) = prop_onLogoutFailure props
   \<and> onLogoutSuccess (destructure props) = prop_onLogoutSuccess props"
  by (simp add: destructure_fields clientConfig_fields signInOptions_scope or_default_def)

text \<open>
  C10 as the claim states it fails: clientId is not the only property without a default.
  A caller that passes clientId alone gets hostedDomains, fetchBasicProfile, redirectUri
  and onLoginSuccess undefined, and \<open>undefined\<close> is what the vendor configuration
  receives as \<open>hosted_domains\<close>.
\<close>

theorem C10_counterexample:
  "hostedDomains (destructure (only_clientId ''my-client-id'')) = None
   \<and> fetchBasicProfile (destructure (only_clientId ''my-client-id'')) = None
   \<and> redirectUri (destructure (only_clientId ''my-client-id'')) = None
   \<and> onLoginSuccess (destructure (only_clientId ''my-client-id'')) = None
   \<and> cfg_hosted_domains (clientConfig (destructure (only_clientId ''my-client-id''))) = None"
  by (simp add: destructure_fields clientConfig_fields only_clientId_def)

end
